theory Spec2Isabelle
  imports Main "HOL-Library.Sublist"
begin

section \<open>The Komga source adapter (src/src/Komga/Komga.ts, version 1.1.3)\<close>

text \<open>
  JavaScript strings are modelled as \<open>string\<close>; a \<open>char\<close> stands for a UTF-16 code
  unit below 256. Numbers that the code only counts with (page cursors, page numbers,
  HTTP status codes) are natural numbers. An exception is the \<open>Inl\<close> of a sum.
\<close>

subsection \<open>Values of the host library and of the JavaScript runtime\<close>

text \<open>
  Modelled from the spec: the \<open>MangaStatus\<close> enum of paperback-extensions-common, which is
  not under src/. The code names only \<open>COMPLETED\<close> and \<open>ONGOING\<close>; the other members
  stand for the values of the enum that the code never produces.
\<close>

datatype MangaStatus = ONGOING | COMPLETED | UNKNOWN | ABANDONED | HIATUS

datatype error = Error string | TypeError | SyntaxError

definition array_includes :: "'a list \<Rightarrow> 'a \<Rightarrow> bool" where
  \<comment> \<open>\<open>Array.prototype.includes\<close>\<close>
  "array_includes xs x = (x \<in> set xs)"

fun join :: "string \<Rightarrow> string list \<Rightarrow> string" where
  \<comment> \<open>\<open>Array.prototype.join\<close>\<close>
  "join sep [] = []"
| "join sep [x] = x"
| "join sep (x # y # ys) = x @ sep @ join sep (y # ys)"

fun num_to_string :: "nat \<Rightarrow> string" where
  \<comment> \<open>a number inside a template string: its decimal digits\<close>
  "num_to_string n =
     (if n < 10 then [''0123456789'' ! n]
      else num_to_string (n div 10) @ [''0123456789'' ! (n mod 10)])"

declare num_to_string.simps [simp del]

definition slice_last :: "string \<Rightarrow> string" where
  \<comment> \<open>\<open>s.slice(-1)\<close>: the last code unit, or the empty string\<close>
  "slice_last s = (if s = [] then [] else [last s])"

definition base64_alphabet :: string where
  "base64_alphabet = ''ABCDEFGHIJKLMNOPQRSTUVWXYZabcdefghijklmnopqrstuvwxyz0123456789+/''"

fun base64 :: "nat list \<Rightarrow> string" where
  "base64 [] = []"
| "base64 [a] =
     [base64_alphabet ! (a div 4), base64_alphabet ! ((a mod 4) * 16), CHR ''='', CHR ''='']"
| "base64 [a, b] =
     [base64_alphabet ! (a div 4), base64_alphabet ! ((a mod 4) * 16 + b div 16),
      base64_alphabet ! ((b mod 16) * 4), CHR ''='']"
| "base64 (a # b # c # rest) =
     [base64_alphabet ! (a div 4), base64_alphabet ! ((a mod 4) * 16 + b div 16),
      base64_alphabet ! ((b mod 16) * 4 + c div 64), base64_alphabet ! (c mod 64)]
     @ base64 rest"

definition binary_to_base64 :: "string \<Rightarrow> string" where
  \<comment> \<open>\<open>Buffer.from(s, 'binary').toString('base64')\<close>: one byte for each code unit\<close>
  "binary_to_base64 s = base64 (map of_char s)"

definition hex_byte :: "nat \<Rightarrow> string" where
  "hex_byte b = [CHR ''%'', ''0123456789ABCDEF'' ! (b div 16), ''0123456789ABCDEF'' ! (b mod 16)]"

definition uri_unreserved :: string where
  "uri_unreserved =
     ''ABCDEFGHIJKLMNOPQRSTUVWXYZabcdefghijklmnopqrstuvwxyz0123456789-_.!~*'' @ [CHR 0x27] @ ''()''"

definition encodeURIComponent :: "string \<Rightarrow> string" where
  \<comment> \<open>every code unit outside the unreserved set becomes the percent-escapes of its UTF-8 bytes\<close>
  "encodeURIComponent s =
     concat (map (\<lambda>c. if c \<in> set uri_unreserved then [c]
                        else if (of_char c :: nat) < 128 then hex_byte (of_char c)
                        else hex_byte (192 + of_char c div 64) @ hex_byte (128 + of_char c mod 64)) s)"

subsection \<open>Constants and pure helpers of the source\<close>

definition SUPPORTED_IMAGE_TYPES :: "string list" where
  "SUPPORTED_IMAGE_TYPES =
     [''image/jpeg'', ''image/png'', ''image/gif'', ''image/webp'', ''application/pdf'']"

definition PAGE_SIZE :: nat where
  "PAGE_SIZE = 40"

definition parseMangaStatus :: "string \<Rightarrow> MangaStatus" where
  "parseMangaStatus komgaStatus =
     (if komgaStatus = ''ENDED'' then COMPLETED
      else if komgaStatus = ''ONGOING'' then ONGOING
      else if komgaStatus = ''ABANDONED'' then ONGOING
      else if komgaStatus = ''HIATUS'' then ONGOING
      else ONGOING)"

definition createAuthorizationString :: "string \<Rightarrow> string \<Rightarrow> string" where
  "createAuthorizationString username password =
     ''Basic '' @ binary_to_base64 (username @ '':'' @ password)"

definition createKomgaAPI :: "string \<Rightarrow> string" where
  "createKomgaAPI serverAddress =
     serverAddress @ (if slice_last serverAddress = ''/'' then ''api/v1'' else ''/api/v1'')"

subsection \<open>Data of the server and of the host\<close>

text \<open>
  A date is its time value: the milliseconds since the epoch, \<open>None\<close> for an invalid
  date, whose time value is NaN. Every comparison with NaN is false.
\<close>

type_synonym date = "int option"

definition date_ge :: "date \<Rightarrow> date \<Rightarrow> bool" where
  "date_ge a b = (case (a, b) of (Some x, Some y) \<Rightarrow> x \<ge> y | _ \<Rightarrow> False)"

text \<open>
  The JSON of the server is modelled as parsed, with the fields the code reads:
  \<open>lastModified\<close> is the date that \<open>new Date(serie.metadata.lastModified)\<close> makes.
\<close>

record SeriesMetadata =
  title :: string
  lastModified :: date
  readingDirection :: string

record Series =
  series_id :: string
  metadata :: SeriesMetadata

record BookPage =
  number :: nat
  mediaType :: string

text \<open>
  The body of a response: an object with a \<open>content\<close> list of series, an array of book
  pages, one series, a JSON object of another shape (no \<open>content\<close>, no \<open>metadata\<close>, not
  iterable), or a string that \<open>JSON.parse\<close> rejects.
\<close>

datatype body =
    SeriesPage "Series list"
  | BookPages "BookPage list"
  | SeriesBody Series
  | OtherJson
  | NotJson

record Request =
  url :: string
  param :: "string option"
  http_method :: string
  headers :: "(string \<rightharpoonup> string) option"
  incognito :: bool

record Response =
  status :: nat
  data :: body

datatype IconText = IconText string

record MangaTile =
  tile_id :: string
  tile_title :: IconText
  tile_image :: string
  subtitleText :: IconText

text \<open>The \<open>metadata\<close> of paged results is \<open>undefined\<close> or \<open>{page: n}\<close>: an optional cursor.\<close>

record PagedResults =
  results :: "MangaTile list"
  paged_metadata :: "nat option"

record ChapterDetails =
  chapter_id :: string
  longStrip :: bool
  mangaId :: string
  pages :: "string list"

text \<open>
  The persistent key-value state of the host is what \<open>stateManager.retrieve\<close> yields for
  each key: the string stored last, \<open>null\<close>, or \<open>undefined\<close> for a key that was never
  written. The request manager's \<open>schedule\<close> answers a request with a response; a rejected
  request is the message of its error.
\<close>

datatype retrieved = Undefined | Null | Stored string

type_synonym state = "string \<Rightarrow> retrieved"

type_synonym scheduler = "Request \<Rightarrow> string + Response"

definition and_then :: "error + 'a \<Rightarrow> ('a \<Rightarrow> error + 'b) \<Rightarrow> error + 'b" where
  \<comment> \<open>sequencing: an exception of the first step ends the operation\<close>
  "and_then m f = (case m of Inl e \<Rightarrow> Inl e | Inr x \<Rightarrow> f x)"

definition await :: "scheduler \<Rightarrow> Request \<Rightarrow> error + Response" where
  \<comment> \<open>\<open>await this.requestManager.schedule(request, 1)\<close>\<close>
  "await schedule request =
     (case schedule request of Inl msg \<Rightarrow> Inl (Error msg) | Inr response \<Rightarrow> Inr response)"

definition store :: "state \<Rightarrow> string \<Rightarrow> string \<Rightarrow> state" where
  "store st key v = st(key := Stored v)"

definition result_content :: "Response \<Rightarrow> error + Series list" where
  \<comment> \<open>\<open>JSON.parse(data.data)\<close>, then iterating over \<open>result.content\<close>\<close>
  "result_content response =
     (case data response of
        SeriesPage content \<Rightarrow> Inr content
      | NotJson \<Rightarrow> Inl SyntaxError
      | _ \<Rightarrow> Inl TypeError)"

definition result_pages :: "Response \<Rightarrow> error + BookPage list" where
  \<comment> \<open>\<open>JSON.parse(data.data)\<close>, then iterating over \<open>result\<close>\<close>
  "result_pages response =
     (case data response of
        BookPages ps \<Rightarrow> Inr ps
      | NotJson \<Rightarrow> Inl SyntaxError
      | _ \<Rightarrow> Inl TypeError)"

definition result_serie :: "Response \<Rightarrow> error + Series" where
  \<comment> \<open>\<open>JSON.parse(data.data)\<close>, then reading \<open>serieResult.metadata\<close>\<close>
  "result_serie response =
     (case data response of
        SeriesBody serie \<Rightarrow> Inr serie
      | NotJson \<Rightarrow> Inl SyntaxError
      | _ \<Rightarrow> Inl TypeError)"

subsection \<open>The request interceptor\<close>

text \<open>
  Both getters compare the retrieved value with \<open>null\<close> only and return it otherwise: a
  string, or \<open>None\<close> for \<open>undefined\<close>.
\<close>

definition getAuthorizationString :: "state \<Rightarrow> error + string option" where
  "getAuthorizationString st =
     (case st ''authorization'' of
        Null \<Rightarrow> Inl (Error ''Unset credentials in source settings'')
      | Undefined \<Rightarrow> Inr None
      | Stored authorizationString \<Rightarrow> Inr (Some authorizationString))"

definition interceptResponse :: "Response \<Rightarrow> error + Response" where
  "interceptResponse response = Inr response"

text \<open>A header that is absent from the map reads \<open>undefined\<close>, as one set to \<open>undefined\<close> does.\<close>

definition interceptRequest :: "state \<Rightarrow> Request \<Rightarrow> error + Request" where
  "interceptRequest st request =
     (let hs = (case headers request of None \<Rightarrow> Map.empty | Some h \<Rightarrow> h)
      in if hs ''authorization'' = None
         then (case getAuthorizationString st of
                 Inl e \<Rightarrow> Inl e
               | Inr a \<Rightarrow> Inr (request\<lparr>headers := Some (hs(''authorization'' := a))\<rparr>))
         else Inr (request\<lparr>headers := Some hs\<rparr>))"

subsection \<open>The catalog operations\<close>

definition getKomgaAPI :: "state \<Rightarrow> error + string option" where
  "getKomgaAPI st =
     (case st ''komgaAPI'' of
        Null \<Rightarrow> Inl (Error ''Unset server URL in source settings'')
      | Undefined \<Rightarrow> Inr None
      | Stored komgaAPI \<Rightarrow> Inr (Some komgaAPI))"

definition template_string :: "string option \<Rightarrow> string" where
  \<comment> \<open>\<open>${komgaAPI}\<close>: the operations read \<open>komgaAPI\<close> inside template strings only\<close>
  "template_string v = (case v of None \<Rightarrow> ''undefined'' | Some str \<Rightarrow> str)"

definition get_request :: "string \<Rightarrow> string option \<Rightarrow> Request" where
  \<comment> \<open>\<open>createRequestObject({url, param, method: "GET"})\<close>\<close>
  "get_request u p = \<lparr>url = u, param = p, http_method = ''GET'', headers = None, incognito = False\<rparr>"

definition page_url :: "string \<Rightarrow> string \<Rightarrow> BookPage \<Rightarrow> string" where
  \<comment> \<open>the body of the loop over the pages of a book\<close>
  "page_url komgaAPI chapterId pg =
     (if array_includes SUPPORTED_IMAGE_TYPES (mediaType pg)
      then komgaAPI @ ''/books/'' @ chapterId @ ''/pages/'' @ num_to_string (number pg)
      else komgaAPI @ ''/books/'' @ chapterId @ ''/pages/'' @ num_to_string (number pg)
             @ ''?convert=png'')"

definition getChapterDetails ::
  "state \<Rightarrow> scheduler \<Rightarrow> string \<Rightarrow> string \<Rightarrow> error + ChapterDetails" where
  "getChapterDetails st schedule manga chapterId =
     and_then (getKomgaAPI st) (\<lambda>api.
     let komgaAPI = template_string api in
     and_then (await schedule (get_request (komgaAPI @ ''/books/'' @ chapterId @ ''/pages'') None))
       (\<lambda>response.
     and_then (result_pages response) (\<lambda>result.
     let ps = map (page_url komgaAPI chapterId) result in
     and_then (await schedule (get_request (komgaAPI @ ''/series/'' @ manga @ ''/'') None))
       (\<lambda>serieResponse.
     and_then (result_serie serieResponse) (\<lambda>serieResult.
     let strip = (if array_includes [''VERTICAL'', ''WEBTOON'']
                       (readingDirection (metadata serieResult))
                  then True else False)
     in Inr \<lparr>chapter_id = chapterId, longStrip = strip, mangaId = manga, pages = ps\<rparr>)))))"

definition createMangaTile :: "string \<Rightarrow> Series \<Rightarrow> MangaTile" where
  \<comment> \<open>the body of the loop over \<open>result.content\<close>\<close>
  "createMangaTile komgaAPI serie =
     \<lparr>tile_id = series_id serie,
      tile_title = IconText (title (metadata serie)),
      tile_image = komgaAPI @ ''/series/'' @ series_id serie @ ''/thumbnail'',
      subtitleText = IconText (''id: '' @ series_id serie)\<rparr>"

definition searchRequest ::
  "state \<Rightarrow> scheduler \<Rightarrow> string option \<Rightarrow> nat option \<Rightarrow> error + PagedResults" where
  \<comment> \<open>\<open>query_title\<close> is \<open>searchQuery.title\<close>, \<open>cursor\<close> is \<open>metadata?.page\<close>\<close>
  "searchRequest st schedule query_title cursor =
     and_then (getKomgaAPI st) (\<lambda>api.
     let komgaAPI = template_string api;
         p = (case cursor of None \<Rightarrow> 0 | Some n \<Rightarrow> n);
         paramsList = [''page='' @ num_to_string p, ''size='' @ num_to_string PAGE_SIZE]
           @ (case query_title of None \<Rightarrow> []
              | Some t \<Rightarrow> [''search='' @ encodeURIComponent t]);
         paramsString = (if length paramsList > 0 then ''?'' @ join ''&'' paramsList else [])
     in
     and_then (await schedule (get_request (komgaAPI @ ''/series'') (Some paramsString)))
       (\<lambda>response.
     and_then (result_content response) (\<lambda>content.
     let tiles = map (createMangaTile komgaAPI) content
     in Inr \<lparr>results = tiles,
             paged_metadata = (if length tiles = 0 then None else Some (p + 1))\<rparr>)))"

definition getViewMoreItems ::
  "state \<Rightarrow> scheduler \<Rightarrow> string \<Rightarrow> nat option \<Rightarrow> error + PagedResults" where
  "getViewMoreItems st schedule homepageSectionId cursor =
     and_then (getKomgaAPI st) (\<lambda>api.
     let komgaAPI = template_string api;
         p = (case cursor of None \<Rightarrow> 0 | Some n \<Rightarrow> n) in
     and_then (await schedule (get_request (komgaAPI @ ''/series/'' @ homepageSectionId)
                 (Some (''?page='' @ num_to_string p @ ''&size='' @ num_to_string PAGE_SIZE))))
       (\<lambda>response.
     and_then (result_content response) (\<lambda>content.
     let tiles = map (createMangaTile komgaAPI) content
     in Inr \<lparr>results = tiles,
             paged_metadata = (if length tiles = 0 then None else Some (p + 1))\<rparr>)))"

subsection \<open>Update polling\<close>

text \<open>
  \<open>ids\<close> is an array of strings and \<open>serie\<close> an object of the parsed response:
  \<open>ids.includes(serie)\<close> compares values of both kinds, and \<open>foundIds.push(serie)\<close>
  collects the object.
\<close>

datatype js_value = JsString string | JsSeries Series

text \<open>
  The variables of the loop, and \<open>updates\<close>: the \<open>ids\<close> of each call of
  \<open>mangaUpdatesFoundCallback\<close> so far, as they are at the call.
\<close>

record loop_state =
  page :: nat
  foundIds :: "js_value list"
  loadMore :: bool
  updates :: "js_value list list"

fun for_content ::
  "date \<Rightarrow> string list \<Rightarrow> Series list \<Rightarrow> js_value list \<times> bool \<Rightarrow> js_value list \<times> bool" where
  \<comment> \<open>the loop over \<open>result.content\<close>, on \<open>foundIds\<close> and \<open>loadMore\<close>; its \<open>break\<close> ends it\<close>
  "for_content time ids [] (found, load) = (found, load)"
| "for_content time ids (serie # rest) (found, load) =
     (if date_ge (lastModified (metadata serie)) time
      then for_content time ids rest
             (if array_includes (map JsString ids) (JsSeries serie)
              then found @ [JsSeries serie] else found, load)
      else (found, False))"

definition loop_body ::
  "scheduler \<Rightarrow> string \<Rightarrow> date \<Rightarrow> string list \<Rightarrow> loop_state \<Rightarrow> error + loop_state" where
  "loop_body schedule komgaAPI time ids s =
     and_then (await schedule (get_request (komgaAPI @ ''/series/updated/'')
                 (Some (''?page='' @ num_to_string (page s) @ ''&size='' @ num_to_string PAGE_SIZE))))
       (\<lambda>response.
     and_then (result_content response) (\<lambda>content.
     let (found, load) = for_content time ids content (foundIds s, loadMore s);
         load' = (if length content = 0 then False else load)
     in Inr \<lparr>page = page s + 1, foundIds = found, loadMore = load',
             updates = updates s @ (if length found > 0 then [found] else [])\<rparr>))"

fun while_loadMore ::
  "nat \<Rightarrow> scheduler \<Rightarrow> string \<Rightarrow> date \<Rightarrow> string list \<Rightarrow> loop_state
     \<Rightarrow> loop_state \<times> error option" where
  \<comment> \<open>at most \<open>n\<close> iterations of the loop: the state reached, and the exception that ended it\<close>
  "while_loadMore 0 schedule komgaAPI time ids s = (s, None)"
| "while_loadMore (Suc n) schedule komgaAPI time ids s =
     (if loadMore s
      then (case loop_body schedule komgaAPI time ids s of
              Inl e \<Rightarrow> (s, Some e)
            | Inr s' \<Rightarrow> while_loadMore n schedule komgaAPI time ids s')
      else (s, None))"

definition filterUpdatedManga ::
  "nat \<Rightarrow> state \<Rightarrow> scheduler \<Rightarrow> date \<Rightarrow> string list
     \<Rightarrow> (js_value list list \<times> (error + unit)) option" where
  \<comment> \<open>the calls of the callback and the outcome; \<open>None\<close> when the loop is still running
      after \<open>fuel\<close> iterations\<close>
  "filterUpdatedManga fuel st schedule time ids =
     (case getKomgaAPI st of
        Inl e \<Rightarrow> Some ([], Inl e)
      | Inr api \<Rightarrow>
          (case while_loadMore fuel schedule (template_string api) time ids
                  \<lparr>page = 0, foundIds = [], loadMore = True, updates = []\<rparr> of
             (s, Some e) \<Rightarrow> Some (updates s, Inl e)
           | (s, None) \<Rightarrow> if loadMore s then None else Some (updates s, Inr ())))"

subsection \<open>The settings form\<close>

text \<open>
  The form that the host submits has the three fields of \<open>getSourceMenuItemForm\<close>;
  \<open>form_entries\<close> lists them as \<open>Object.keys(form)\<close> does. A call of
  \<open>stateManager.store\<close> writes when it is made; \<open>Promise.all\<close> only waits for the writes.
\<close>

record Form =
  serverAddress :: string
  serverUsername :: string
  serverPassword :: string

definition form_entries :: "Form \<Rightarrow> (string \<times> string) list" where
  "form_entries form =
     [(''serverAddress'', serverAddress form),
      (''serverUsername'', serverUsername form),
      (''serverPassword'', serverPassword form)]"

definition test_request :: "string \<Rightarrow> string \<Rightarrow> bool \<Rightarrow> Request" where
  "test_request komgaAPI authorization incog =
     \<lparr>url = komgaAPI @ ''/series/'', param = Some ''?size=1'', http_method = ''GET'',
      headers = Some [''authorization'' \<mapsto> authorization], incognito = incog\<rparr>"

definition submitSourceMenuItemForm ::
  "state \<Rightarrow> scheduler \<Rightarrow> Form \<Rightarrow> (error + unit) \<times> state" where
  "submitSourceMenuItemForm st schedule form =
     (let st1 = fold (\<lambda>(key, v) s. store s key v) (form_entries form) st;
          authorization = createAuthorizationString (serverUsername form) (serverPassword form);
          komgaAPI = createKomgaAPI (serverAddress form)
      in case schedule (test_request komgaAPI authorization True) of
           Inl msg \<Rightarrow> (Inl (Error (''Could not connect to server: '' @ msg)), st1)
         | Inr response \<Rightarrow>
             if status response = 200
             then (Inr (),
                   store (store (store (store (store st1
                     ''serverAddress'' (serverAddress form))
                     ''serverUsername'' (serverUsername form))
                     ''serverPassword'' (serverPassword form))
                     ''authorization'' authorization)
                     ''komgaAPI'' komgaAPI)
             else if status response = 401
             then (Inl (Error ''401 Unauthorized: Invalid credentials''), st1)
             else (Inl (Error (''Connection failed with status code ''
                                 @ num_to_string (status response))), st1))"

text \<open>The same method in version 1.1.2 of the file (lines 468 to 515).\<close>

definition submitSourceMenuItemForm_v112 ::
  "state \<Rightarrow> scheduler \<Rightarrow> Form \<Rightarrow> (error + unit) \<times> state" where
  "submitSourceMenuItemForm_v112 st schedule form =
     (let st1 = fold (\<lambda>(key, v) s. store s key v) (form_entries form) st;
          authorization = createAuthorizationString (serverUsername form) (serverPassword form);
          komgaAPI = createKomgaAPI (serverAddress form);
          st2 = store (store st1 ''authorization'' authorization) ''komgaAPI'' komgaAPI
      in case schedule (test_request komgaAPI authorization False) of
           Inl msg \<Rightarrow> (Inl (Error (''Could not connect to server: '' @ msg)), st2)
         | Inr response \<Rightarrow>
             if status response = 200 then (Inr (), st2)
             else if status response = 401
             then (Inl (Error ''401 Unauthorized: Invalid credentials''), st2)
             else (Inl (Error (''Connection failed with status code ''
                                 @ num_to_string (status response))), st2))"

subsection \<open>Example inputs\<close>


definition example_state :: state where
  "example_state =
     (\<lambda>key. Undefined)
       (''komgaAPI'' := Stored ''http://h/api/v1'', ''authorization'' := Stored ''Basic b2xk'')"

definition example_series :: "string \<Rightarrow> int \<Rightarrow> string \<Rightarrow> Series" where
  "example_series i t direction =
     \<lparr>series_id = i,
      metadata = \<lparr>title = ''Title'', lastModified = Some t, readingDirection = direction\<rparr>\<rparr>"

definition forty_then_empty :: scheduler where
  \<comment> \<open>a server with forty series: page 0 holds them all, every later page is empty\<close>
  "forty_then_empty request =
     (if param request = Some ''?page=0&size=40''
      then Inr \<lparr>status = 200, data = SeriesPage (replicate 40 (example_series ''s1'' 0 ''WEBTOON''))\<rparr>
      else Inr \<lparr>status = 200, data = SeriesPage []\<rparr>)"

definition book_server :: "string \<Rightarrow> scheduler" where
  \<comment> \<open>a server with one book of two pages, in a series of the given reading direction\<close>
  "book_server direction request =
     (if url request = ''http://h/api/v1/books/b1/pages''
      then Inr \<lparr>status = 200,
                data = BookPages [\<lparr>number = 1, mediaType = ''image/webp''\<rparr>,
                                  \<lparr>number = 2, mediaType = ''application/octet-stream''\<rparr>]\<rparr>
      else Inr \<lparr>status = 200, data = SeriesBody (example_series ''s1'' 0 direction)\<rparr>)"

definition updated_server :: scheduler where
  \<comment> \<open>page 0 holds one series, last modified at time 2000; every later page is empty\<close>
  "updated_server request =
     (if param request = Some ''?page=0&size=40''
      then Inr \<lparr>status = 200, data = SeriesPage [example_series ''s1'' 2000 ''WEBTOON'']\<rparr>
      else Inr \<lparr>status = 200, data = SeriesPage []\<rparr>)"

definition old_settings :: state where
  "old_settings =
     (\<lambda>key. Undefined)
       (''serverAddress'' := Stored ''http://old/'', ''serverUsername'' := Stored ''old'',
        ''serverPassword'' := Stored ''old'', ''authorization'' := Stored ''Basic b2xkOm9sZA=='',
        ''komgaAPI'' := Stored ''http://old/api/v1'')"

definition new_form :: Form where
  "new_form = \<lparr>serverAddress = ''http://new'', serverUsername = ''u'', serverPassword = ''p''\<rparr>"

definition unauthorized_server :: scheduler where
  "unauthorized_server request = Inr \<lparr>status = 401, data = OtherJson\<rparr>"


section \<open>Properties\<close>

subsection \<open>Status mapping and server address\<close>

text \<open>
  C8. \<open>parseMangaStatus\<close> maps "ENDED" to the completed status and "ONGOING", "ABANDONED"
  and "HIATUS" to the ongoing status; every string outside these four yields the ongoing
  status too, and no string yields a status other than these two.
\<close>

theorem parseMangaStatus_cases:
  "parseMangaStatus ''ENDED'' = COMPLETED \<and>
   parseMangaStatus ''ONGOING'' = ONGOING \<and>
   parseMangaStatus ''ABANDONED'' = ONGOING \<and>
   parseMangaStatus ''HIATUS'' = ONGOING \<and>
   (s \<notin> {''ENDED'', ''ONGOING'', ''ABANDONED'', ''HIATUS''} \<longrightarrow> parseMangaStatus s = ONGOING) \<and>
   parseMangaStatus s \<in> {COMPLETED, ONGOING}"
  by (simp add: parseMangaStatus_def)

theorem parseMangaStatus_cases_witness:
  "''CANCELLED'' \<notin> {''ENDED'', ''ONGOING'', ''ABANDONED'', ''HIATUS''} \<and>
   parseMangaStatus ''CANCELLED'' = ONGOING"
proof -
  have other: "''CANCELLED'' \<notin> {''ENDED'', ''ONGOING'', ''ABANDONED'', ''HIATUS''}"
    by simp
  note imp = parseMangaStatus_cases [of "''CANCELLED''", THEN conjunct2, THEN conjunct2,
      THEN conjunct2, THEN conjunct2, THEN conjunct1]
  show ?thesis
    by (rule conjI [OF other mp [OF imp other]])
qed

lemma slice_last_slash: "slice_last a = ''/'' \<longleftrightarrow> suffix ''/'' a"
proof (cases a rule: rev_cases)
  case Nil
  then show ?thesis by (simp add: slice_last_def)
next
  case (snoc ys y)
  then show ?thesis by (auto simp: slice_last_def)
qed

text \<open>
  C7. An address that ends in "/" gets "api/v1" appended by \<open>createKomgaAPI\<close>; an address
  that does not end in "/" (the empty one too) gets "/api/v1" appended.
\<close>

theorem createKomgaAPI_trailing_slash:
  "(suffix ''/'' a \<longrightarrow> createKomgaAPI a = a @ ''api/v1'') \<and>
   (\<not> suffix ''/'' a \<longrightarrow> createKomgaAPI a = a @ ''/api/v1'')"
  by (simp add: createKomgaAPI_def slice_last_slash)

theorem createKomgaAPI_trailing_slash_witness:
  "suffix ''/'' ''http://127.0.0.1:8080/'' \<and>
   createKomgaAPI ''http://127.0.0.1:8080/'' = ''http://127.0.0.1:8080/api/v1'' \<and>
   \<not> suffix ''/'' ''http://127.0.0.1:8080'' \<and>
   createKomgaAPI ''http://127.0.0.1:8080'' = ''http://127.0.0.1:8080/api/v1''"
proof -
  have with_slash: "suffix ''/'' ''http://127.0.0.1:8080/''"
    by code_simp
  have without_slash: "\<not> suffix ''/'' ''http://127.0.0.1:8080''"
    by code_simp
  have "createKomgaAPI ''http://127.0.0.1:8080/'' = ''http://127.0.0.1:8080/'' @ ''api/v1''"
    by (rule createKomgaAPI_trailing_slash [THEN conjunct1, THEN mp, OF with_slash])
  then have a: "createKomgaAPI ''http://127.0.0.1:8080/'' = ''http://127.0.0.1:8080/api/v1''"
    by simp
  have "createKomgaAPI ''http://127.0.0.1:8080'' = ''http://127.0.0.1:8080'' @ ''/api/v1''"
    by (rule createKomgaAPI_trailing_slash [THEN conjunct2, THEN mp, OF without_slash])
  then have b: "createKomgaAPI ''http://127.0.0.1:8080'' = ''http://127.0.0.1:8080/api/v1''"
    by simp
  show ?thesis
    by (rule conjI with_slash a without_slash b)+
qed

subsection \<open>Evaluation lemmas\<close>

lemma num_to_string_PAGE_SIZE: "num_to_string PAGE_SIZE = ''40''"
  by (simp add: PAGE_SIZE_def num_to_string.simps)

lemma num_to_string_0: "num_to_string 0 = ''0''"
  by (simp add: num_to_string.simps)

lemma num_to_string_1: "num_to_string (Suc 0) = ''1''"
  by (simp add: num_to_string.simps)

lemma and_then_Inr: "and_then (Inr x) f = f x"
  by (simp add: and_then_def)

lemma result_content_SeriesPage:
  "data response = SeriesPage content \<Longrightarrow> result_content response = Inr content"
  by (simp add: result_content_def)

lemma result_pages_BookPages:
  "data response = BookPages ps \<Longrightarrow> result_pages response = Inr ps"
  by (simp add: result_pages_def)

lemma result_serie_SeriesBody:
  "data response = SeriesBody serie \<Longrightarrow> result_serie response = Inr serie"
  by (simp add: result_serie_def)

lemma example_state_komgaAPI: "example_state ''komgaAPI'' = Stored ''http://h/api/v1''"
  by (simp add: example_state_def)

subsection \<open>The request interceptor\<close>

text \<open>
  What \<open>interceptRequest\<close> does in each case: a carried authorization header is returned
  untouched, whatever the state holds; an unset one is filled with the stored string;
  \<open>null\<close> in the state raises the error; \<open>undefined\<close> in the state raises nothing and
  leaves the header unset. \<open>interceptResponse\<close> returns every response as it is.
\<close>

lemma interceptRequest_cases:
  "(headers request = Some h \<and> h ''authorization'' = Some a
      \<longrightarrow> interceptRequest st request = Inr request) \<and>
   ((case headers request of None \<Rightarrow> True | Some h \<Rightarrow> h ''authorization'' = None)
      \<and> st ''authorization'' = Stored stored
      \<longrightarrow> interceptRequest st request =
            Inr (request\<lparr>headers := Some ((case headers request of None \<Rightarrow> Map.empty | Some h \<Rightarrow> h)
                                           (''authorization'' \<mapsto> stored))\<rparr>)) \<and>
   ((case headers request of None \<Rightarrow> True | Some h \<Rightarrow> h ''authorization'' = None)
      \<and> st ''authorization'' = Null
      \<longrightarrow> interceptRequest st request = Inl (Error ''Unset credentials in source settings'')) \<and>
   ((case headers request of None \<Rightarrow> True | Some h \<Rightarrow> h ''authorization'' = None)
      \<and> st ''authorization'' = Undefined
      \<longrightarrow> interceptRequest st request =
            Inr (request\<lparr>headers := Some (case headers request of None \<Rightarrow> Map.empty | Some h \<Rightarrow> h)\<rparr>)) \<and>
   interceptResponse response = Inr response"
  by (auto simp: interceptRequest_def getAuthorizationString_def interceptResponse_def
      fun_upd_idem split: option.splits)


subsection \<open>Search and the paged sections\<close>

lemma searchRequest_returns:
  assumes api: "st ''komgaAPI'' = Stored api"
    and resp: "schedule (get_request (api @ ''/series'')
                 (Some (''?page='' @ num_to_string (case cursor of None \<Rightarrow> 0 | Some n \<Rightarrow> n)
                        @ ''&size=40''
                        @ (case q of None \<Rightarrow> [] | Some t \<Rightarrow> ''&search='' @ encodeURIComponent t))))
               = Inr response"
    and body: "data response = SeriesPage content"
  shows "searchRequest st schedule q cursor =
           Inr \<lparr>results = map (createMangaTile api) content,
                paged_metadata = (if content = [] then None
                                  else Some ((case cursor of None \<Rightarrow> 0 | Some n \<Rightarrow> n) + 1))\<rparr>"
proof (cases q)
  case None
  with resp have "await schedule (get_request (api @ ''/series'')
      (Some (''?page='' @ num_to_string (case cursor of None \<Rightarrow> 0 | Some n \<Rightarrow> n) @ ''&size=40'')))
      = Inr response"
    by (simp add: await_def)
  with None show ?thesis
    by (simp add: searchRequest_def getKomgaAPI_def template_string_def api and_then_Inr Let_def
        num_to_string_PAGE_SIZE result_content_SeriesPage [OF body])
next
  case (Some t)
  with resp have "await schedule (get_request (api @ ''/series'')
      (Some (''?page='' @ num_to_string (case cursor of None \<Rightarrow> 0 | Some n \<Rightarrow> n) @ ''&size=40''
         @ ''&search='' @ encodeURIComponent t)))
      = Inr response"
    by (simp add: await_def)
  with Some show ?thesis
    by (simp add: searchRequest_def getKomgaAPI_def template_string_def api and_then_Inr Let_def
        num_to_string_PAGE_SIZE result_content_SeriesPage [OF body])
qed

lemma getViewMoreItems_returns:
  assumes api: "st ''komgaAPI'' = Stored api"
    and resp: "schedule (get_request (api @ ''/series/'' @ section)
                 (Some (''?page='' @ num_to_string (case cursor of None \<Rightarrow> 0 | Some n \<Rightarrow> n)
                        @ ''&size=40''))) = Inr response"
    and body: "data response = SeriesPage content"
  shows "getViewMoreItems st schedule section cursor =
           Inr \<lparr>results = map (createMangaTile api) content,
                paged_metadata = (if content = [] then None
                                  else Some ((case cursor of None \<Rightarrow> 0 | Some n \<Rightarrow> n) + 1))\<rparr>"
proof -
  from resp have "await schedule (get_request (api @ ''/series/'' @ section)
      (Some (''?page='' @ num_to_string (case cursor of None \<Rightarrow> 0 | Some n \<Rightarrow> n) @ ''&size=40'')))
      = Inr response"
    by (simp add: await_def)
  then show ?thesis
    by (simp add: getViewMoreItems_def getKomgaAPI_def template_string_def api and_then_Inr Let_def
        num_to_string_PAGE_SIZE result_content_SeriesPage [OF body])
qed

text \<open>
  C4. With the API address stored and a response whose content list is \<open>content\<close>,
  \<open>searchRequest\<close> at cursor \<open>p\<close> (0 when no cursor is given) returns paged results
  with one tile for each entry, whose metadata is the cursor \<open>p + 1\<close> when the content is
  not empty and is absent when the content is empty. The witness is a first page of 40
  entries followed by an empty page: the first call carries cursor 1, the second none.
\<close>

theorem searchRequest_continuation:
  assumes "st ''komgaAPI'' = Stored api"
    and "schedule (get_request (api @ ''/series'')
                 (Some (''?page='' @ num_to_string (case cursor of None \<Rightarrow> 0 | Some n \<Rightarrow> n)
                        @ ''&size=40''
                        @ (case q of None \<Rightarrow> [] | Some t \<Rightarrow> ''&search='' @ encodeURIComponent t))))
          = Inr response"
    and "data response = SeriesPage content"
  shows "\<exists>res. searchRequest st schedule q cursor = Inr res \<and>
           length (results res) = length content \<and>
           paged_metadata res =
             (if content = [] then None
              else Some ((case cursor of None \<Rightarrow> 0 | Some n \<Rightarrow> n) + 1))"
  by (simp add: searchRequest_returns [where st = st and schedule = schedule, OF assms])

theorem searchRequest_continuation_witness:
  "(\<exists>res. searchRequest example_state forty_then_empty None None = Inr res \<and>
          length (results res) = 40 \<and> paged_metadata res = Some 1) \<and>
   (\<exists>res. searchRequest example_state forty_then_empty None (Some 1) = Inr res \<and>
          length (results res) = 0 \<and> paged_metadata res = None)"
proof -
  have api: "example_state ''komgaAPI'' = Stored ''http://h/api/v1''"
    by (simp add: example_state_def)
  have page0: "forty_then_empty (get_request (''http://h/api/v1'' @ ''/series'')
        (Some (''?page='' @ num_to_string (case None of None \<Rightarrow> 0 | Some n \<Rightarrow> n) @ ''&size=40''
               @ (case None of None \<Rightarrow> [] | Some t \<Rightarrow> ''&search='' @ encodeURIComponent t))))
      = Inr \<lparr>status = 200, data = SeriesPage (replicate 40 (example_series ''s1'' 0 ''WEBTOON''))\<rparr>"
    by (simp add: forty_then_empty_def get_request_def num_to_string_0)
  have page1: "forty_then_empty (get_request (''http://h/api/v1'' @ ''/series'')
        (Some (''?page='' @ num_to_string (case Some 1 of None \<Rightarrow> 0 | Some n \<Rightarrow> n) @ ''&size=40''
               @ (case None of None \<Rightarrow> [] | Some t \<Rightarrow> ''&search='' @ encodeURIComponent t))))
      = Inr \<lparr>status = 200, data = SeriesPage []\<rparr>"
    by (simp add: forty_then_empty_def get_request_def num_to_string_1)
  have body0: "data \<lparr>status = 200, data = SeriesPage (replicate 40 (example_series ''s1'' 0 ''WEBTOON''))\<rparr>
      = SeriesPage (replicate 40 (example_series ''s1'' 0 ''WEBTOON''))"
    by simp
  have body1: "data \<lparr>status = 200, data = SeriesPage []\<rparr> = SeriesPage []"
    by simp
  from searchRequest_continuation [where st = example_state and schedule = forty_then_empty,
      OF api page0 body0]
  have first: "\<exists>res. searchRequest example_state forty_then_empty None None = Inr res \<and>
          length (results res) = 40 \<and> paged_metadata res = Some 1"
    by simp
  from searchRequest_continuation [where st = example_state and schedule = forty_then_empty,
      OF api page1 body1]
  have second: "\<exists>res. searchRequest example_state forty_then_empty None (Some 1) = Inr res \<and>
          length (results res) = 0 \<and> paged_metadata res = None"
    by simp
  show ?thesis
    by (rule conjI first second)+
qed

text \<open>
  C9. When the server answers the request of \<open>getViewMoreItems\<close> and the request of a
  \<open>searchRequest\<close> without title with the same content list, both return the same paged
  results: one tile for each entry, in order, with the entry's id, its title, the image
  URL \<open>{komgaAPI}/series/{id}/thumbnail\<close> and the subtitle "id: " followed by the id, and
  the cursor \<open>page + 1\<close> exactly when the list is not empty.
\<close>

theorem getViewMoreItems_is_searchRequest:
  assumes api: "st ''komgaAPI'' = Stored api"
    and search: "schedule (get_request (api @ ''/series'')
                   (Some (''?page='' @ num_to_string (case cursor of None \<Rightarrow> 0 | Some n \<Rightarrow> n)
                          @ ''&size=40''))) = Inr response"
    and more: "schedule (get_request (api @ ''/series/'' @ section)
                   (Some (''?page='' @ num_to_string (case cursor of None \<Rightarrow> 0 | Some n \<Rightarrow> n)
                          @ ''&size=40''))) = Inr response'"
    and body: "data response = SeriesPage content"
    and body': "data response' = SeriesPage content"
  shows "getViewMoreItems st schedule section cursor = searchRequest st schedule None cursor \<and>
         searchRequest st schedule None cursor =
           Inr \<lparr>results =
                  map (\<lambda>entry.
                         \<lparr>tile_id = series_id entry,
                          tile_title = IconText (title (metadata entry)),
                          tile_image = api @ ''/series/'' @ series_id entry @ ''/thumbnail'',
                          subtitleText = IconText (''id: '' @ series_id entry)\<rparr>) content,
                paged_metadata =
                  (if content = [] then None
                   else Some ((case cursor of None \<Rightarrow> 0 | Some n \<Rightarrow> n) + 1))\<rparr>"
proof -
  from search have search': "schedule (get_request (api @ ''/series'')
      (Some (''?page='' @ num_to_string (case cursor of None \<Rightarrow> 0 | Some n \<Rightarrow> n) @ ''&size=40''
             @ (case None of None \<Rightarrow> [] | Some t \<Rightarrow> ''&search='' @ encodeURIComponent t))))
      = Inr response"
    by simp
  have tiles: "createMangaTile api =
      (\<lambda>entry. \<lparr>tile_id = series_id entry,
                 tile_title = IconText (title (metadata entry)),
                 tile_image = api @ ''/series/'' @ series_id entry @ ''/thumbnail'',
                 subtitleText = IconText (''id: '' @ series_id entry)\<rparr>)"
    by (rule ext) (simp add: createMangaTile_def)
  show ?thesis
    by (simp add: searchRequest_returns [where st = st and schedule = schedule, OF api search' body]
        getViewMoreItems_returns [where st = st and schedule = schedule, OF api more body'] tiles)
qed

theorem getViewMoreItems_is_searchRequest_witness:
  "getViewMoreItems example_state forty_then_empty ''new'' None
     = searchRequest example_state forty_then_empty None None \<and>
   (\<exists>res. searchRequest example_state forty_then_empty None None = Inr res \<and>
          length (results res) = 40 \<and> paged_metadata res = Some 1)"
proof -
  have api: "example_state ''komgaAPI'' = Stored ''http://h/api/v1''"
    by (simp add: example_state_def)
  have search: "forty_then_empty (get_request (''http://h/api/v1'' @ ''/series'')
        (Some (''?page='' @ num_to_string (case None of None \<Rightarrow> 0 | Some n \<Rightarrow> n) @ ''&size=40'')))
      = Inr \<lparr>status = 200, data = SeriesPage (replicate 40 (example_series ''s1'' 0 ''WEBTOON''))\<rparr>"
    by (simp add: forty_then_empty_def get_request_def num_to_string_0)
  have more: "forty_then_empty (get_request (''http://h/api/v1'' @ ''/series/'' @ ''new'')
        (Some (''?page='' @ num_to_string (case None of None \<Rightarrow> 0 | Some n \<Rightarrow> n) @ ''&size=40'')))
      = Inr \<lparr>status = 200, data = SeriesPage (replicate 40 (example_series ''s1'' 0 ''WEBTOON''))\<rparr>"
    by (simp add: forty_then_empty_def get_request_def num_to_string_0)
  have body: "data \<lparr>status = 200, data = SeriesPage (replicate 40 (example_series ''s1'' 0 ''WEBTOON''))\<rparr>
      = SeriesPage (replicate 40 (example_series ''s1'' 0 ''WEBTOON''))"
    by simp
  note both = getViewMoreItems_is_searchRequest
    [where st = example_state and schedule = forty_then_empty, OF api search more body body]
  from both have same: "getViewMoreItems example_state forty_then_empty ''new'' None
      = searchRequest example_state forty_then_empty None None"
    by (rule conjunct1)
  from both [THEN conjunct2]
  have "\<exists>res. searchRequest example_state forty_then_empty None None = Inr res \<and>
          length (results res) = 40 \<and> paged_metadata res = Some 1"
    by simp
  with same show ?thesis
    by (rule conjI)
qed

subsection \<open>Chapter details\<close>

lemma book_server_pages:
  "book_server direction (get_request (''http://h/api/v1'' @ ''/books/'' @ ''b1'' @ ''/pages'') None)
     = Inr \<lparr>status = 200,
             data = BookPages [\<lparr>number = 1, mediaType = ''image/webp''\<rparr>,
                               \<lparr>number = 2, mediaType = ''application/octet-stream''\<rparr>]\<rparr>"
  by (simp add: book_server_def get_request_def)

lemma book_server_serie:
  "book_server direction (get_request (''http://h/api/v1'' @ ''/series/'' @ ''s1'' @ ''/'') None)
     = Inr \<lparr>status = 200, data = SeriesBody (example_series ''s1'' 0 direction)\<rparr>"
  by (simp add: book_server_def get_request_def)

lemma getChapterDetails_returns:
  assumes api: "st ''komgaAPI'' = Stored api"
    and book: "schedule (get_request (api @ ''/books/'' @ chapterId @ ''/pages'') None) = Inr response"
    and book_body: "data response = BookPages entries"
    and serie: "schedule (get_request (api @ ''/series/'' @ manga @ ''/'') None) = Inr serieResponse"
    and serie_body: "data serieResponse = SeriesBody serie"
  shows "getChapterDetails st schedule manga chapterId =
           Inr \<lparr>chapter_id = chapterId,
                longStrip = array_includes [''VERTICAL'', ''WEBTOON''] (readingDirection (metadata serie)),
                mangaId = manga,
                pages = map (page_url api chapterId) entries\<rparr>"
  using book serie
  by (simp add: getChapterDetails_def getKomgaAPI_def template_string_def api and_then_Inr Let_def await_def
      result_pages_BookPages [OF book_body] result_serie_SeriesBody [OF serie_body])

text \<open>
  C5. For each entry of the page list, in order, \<open>getChapterDetails\<close> builds the URL
  \<open>{komgaAPI}/books/{chapterId}/pages/{number}\<close>, with nothing appended when the media
  type of the entry is image/jpeg, image/png, image/gif, image/webp or application/pdf,
  and with \<open>?convert=png\<close> appended for every other media type.
\<close>

theorem getChapterDetails_page_urls:
  assumes "st ''komgaAPI'' = Stored api"
    and "schedule (get_request (api @ ''/books/'' @ chapterId @ ''/pages'') None) = Inr response"
    and "data response = BookPages entries"
    and "schedule (get_request (api @ ''/series/'' @ manga @ ''/'') None) = Inr serieResponse"
    and "data serieResponse = SeriesBody serie"
  shows "\<exists>details. getChapterDetails st schedule manga chapterId = Inr details \<and>
           pages details =
             map (\<lambda>entry. api @ ''/books/'' @ chapterId @ ''/pages/'' @ num_to_string (number entry)
                            @ (if mediaType entry \<in> {''image/jpeg'', ''image/png'', ''image/gif'',
                                                        ''image/webp'', ''application/pdf''}
                               then [] else ''?convert=png'')) entries"
proof -
  have url: "page_url api chapterId =
      (\<lambda>entry. api @ ''/books/'' @ chapterId @ ''/pages/'' @ num_to_string (number entry)
                 @ (if mediaType entry \<in> {''image/jpeg'', ''image/png'', ''image/gif'',
                                             ''image/webp'', ''application/pdf''}
                    then [] else ''?convert=png''))"
    by (rule ext) (simp add: page_url_def array_includes_def SUPPORTED_IMAGE_TYPES_def)
  show ?thesis
    by (simp add: getChapterDetails_returns [where st = st and schedule = schedule, OF assms] url)
qed

theorem getChapterDetails_page_urls_witness:
  "\<exists>details. getChapterDetails example_state (book_server ''WEBTOON'') ''s1'' ''b1'' = Inr details \<and>
      pages details = [''http://h/api/v1/books/b1/pages/1'',
                       ''http://h/api/v1/books/b1/pages/2?convert=png'']"
proof -
  have book_body: "data \<lparr>status = 200,
        data = BookPages [\<lparr>number = 1, mediaType = ''image/webp''\<rparr>,
                          \<lparr>number = 2, mediaType = ''application/octet-stream''\<rparr>]\<rparr>
      = BookPages [\<lparr>number = 1, mediaType = ''image/webp''\<rparr>,
                   \<lparr>number = 2, mediaType = ''application/octet-stream''\<rparr>]"
    by simp
  have serie_body: "data \<lparr>status = 200, data = SeriesBody (example_series ''s1'' 0 ''WEBTOON'')\<rparr>
      = SeriesBody (example_series ''s1'' 0 ''WEBTOON'')"
    by simp
  from getChapterDetails_page_urls
    [where st = example_state and schedule = "book_server ''WEBTOON''",
     OF example_state_komgaAPI book_server_pages book_body book_server_serie serie_body]
  show ?thesis
    by (simp add: num_to_string.simps)
qed

text \<open>
  C6. The chapter details have \<open>longStrip\<close> set if and only if the reading direction of
  the series is "VERTICAL" or "WEBTOON": it is set for "WEBTOON" and not for
  "LEFT_TO_RIGHT".
\<close>

theorem getChapterDetails_longStrip:
  assumes "st ''komgaAPI'' = Stored api"
    and "schedule (get_request (api @ ''/books/'' @ chapterId @ ''/pages'') None) = Inr response"
    and "data response = BookPages entries"
    and "schedule (get_request (api @ ''/series/'' @ manga @ ''/'') None) = Inr serieResponse"
    and "data serieResponse = SeriesBody serie"
  shows "\<exists>details. getChapterDetails st schedule manga chapterId = Inr details \<and>
           (longStrip details \<longleftrightarrow>
              readingDirection (metadata serie) = ''VERTICAL'' \<or>
              readingDirection (metadata serie) = ''WEBTOON'')"
  by (simp add: getChapterDetails_returns [where st = st and schedule = schedule, OF assms]
      array_includes_def)

theorem getChapterDetails_longStrip_witness:
  "(\<exists>details. getChapterDetails example_state (book_server ''WEBTOON'') ''s1'' ''b1'' = Inr details \<and>
       longStrip details) \<and>
   (\<exists>details. getChapterDetails example_state (book_server ''LEFT_TO_RIGHT'') ''s1'' ''b1'' = Inr details \<and>
       \<not> longStrip details)"
proof -
  have book_body: "data \<lparr>status = 200,
        data = BookPages [\<lparr>number = 1, mediaType = ''image/webp''\<rparr>,
                          \<lparr>number = 2, mediaType = ''application/octet-stream''\<rparr>]\<rparr>
      = BookPages [\<lparr>number = 1, mediaType = ''image/webp''\<rparr>,
                   \<lparr>number = 2, mediaType = ''application/octet-stream''\<rparr>]"
    by simp
  have serie_body: "data \<lparr>status = 200, data = SeriesBody (example_series ''s1'' 0 direction)\<rparr>
      = SeriesBody (example_series ''s1'' 0 direction)" for direction
    by simp
  from getChapterDetails_longStrip
    [where st = example_state and schedule = "book_server ''WEBTOON''",
     OF example_state_komgaAPI book_server_pages book_body book_server_serie serie_body]
  have webtoon: "\<exists>details. getChapterDetails example_state (book_server ''WEBTOON'') ''s1'' ''b1''
      = Inr details \<and> longStrip details"
    by (simp add: example_series_def)
  from getChapterDetails_longStrip
    [where st = example_state and schedule = "book_server ''LEFT_TO_RIGHT''",
     OF example_state_komgaAPI book_server_pages book_body book_server_serie serie_body]
  have left_to_right: "\<exists>details. getChapterDetails example_state (book_server ''LEFT_TO_RIGHT'') ''s1'' ''b1''
      = Inr details \<and> \<not> longStrip details"
    by (simp add: example_series_def)
  show ?thesis
    by (rule conjI webtoon left_to_right)+
qed

subsection \<open>Update polling\<close>

text \<open>
  \<open>ids.includes(serie)\<close> looks for the series object among the candidate strings, where
  it never is: the loop collects nothing and the callback is never called.
\<close>

lemma includes_series_never: "\<not> array_includes (map JsString ids) (JsSeries serie)"
  by (auto simp: array_includes_def)

lemma for_content_found: "fst (for_content time ids content (found, load)) = found"
  by (induction content arbitrary: found load) (simp_all add: includes_series_never)

lemma for_content_unchanged:
  assumes "for_content time ids content (found, load) = (found', load')"
  shows "found' = found"
  using for_content_found [of time ids content found load] assms by simp

lemma loop_body_silent:
  assumes "loop_body schedule api time ids s = Inr s'" and "foundIds s = []"
  shows "foundIds s' = [] \<and> updates s' = updates s"
  using assms
  by (auto simp: loop_body_def and_then_def Let_def split: sum.splits prod.splits
      dest: for_content_unchanged)

lemma while_loadMore_silent:
  assumes "while_loadMore n schedule api time ids s = (s', outcome)" and "foundIds s = []"
  shows "foundIds s' = [] \<and> updates s' = updates s"
  using assms
proof (induction n arbitrary: s)
  case 0
  then show ?case by simp
next
  case (Suc n)
  show ?case
  proof (cases "loadMore s")
    case False
    with Suc.prems show ?thesis by simp
  next
    case True
    show ?thesis
    proof (cases "loop_body schedule api time ids s")
      case (Inl e)
      with True Suc.prems show ?thesis by simp
    next
      case (Inr s1)
      with True Suc.prems have run: "while_loadMore n schedule api time ids s1 = (s', outcome)"
        by simp
      from loop_body_silent [OF Inr Suc.prems(2)] have "foundIds s1 = []" and "updates s1 = updates s"
        by simp_all
      with Suc.IH [OF run] show ?thesis by simp
    qed
  qed
qed

lemma filterUpdatedManga_never_calls_back:
  assumes "filterUpdatedManga fuel st schedule time ids = Some (calls, outcome)"
  shows "calls = []"
proof (cases "getKomgaAPI st")
  case (Inl e)
  with assms show ?thesis by (simp add: filterUpdatedManga_def)
next
  case (Inr api)
  obtain s' e where run: "while_loadMore fuel schedule (template_string api) time ids
      \<lparr>page = 0, foundIds = [], loadMore = True, updates = []\<rparr> = (s', e)"
    by (cases "while_loadMore fuel schedule (template_string api) time ids
      \<lparr>page = 0, foundIds = [], loadMore = True, updates = []\<rparr>")
  from while_loadMore_silent [OF run] have "updates s' = []"
    by simp
  with assms Inr run show ?thesis
    by (auto simp: filterUpdatedManga_def split: option.splits if_splits)
qed

text \<open>
  C2. Page 0 holds one series, modified at time 2000, after the cutoff 1000, and its id
  "s1" is a candidate; page 1 is empty. The loop ends after page 1 (one iteration is not
  enough, two are), and the callback has not been called: the list of its calls is empty,
  where the claim expects a call with "s1".
\<close>

theorem filterUpdatedManga_reports_nothing:
  "filterUpdatedManga 2 example_state updated_server (Some 1000) [''s1''] = Some ([], Inr ()) \<and>
   filterUpdatedManga 1 example_state updated_server (Some 1000) [''s1''] = None \<and>
   date_ge (lastModified (metadata (example_series ''s1'' 2000 ''WEBTOON''))) (Some 1000) \<and>
   series_id (example_series ''s1'' 2000 ''WEBTOON'') \<in> set [''s1'']"
  by (simp add: filterUpdatedManga_def getKomgaAPI_def template_string_def example_state_def
      numeral_2_eq_2
      loop_body_def await_def and_then_def result_content_def updated_server_def
      get_request_def num_to_string.simps PAGE_SIZE_def example_series_def date_ge_def
      array_includes_def)

lemma loop_body_foundIds:
  assumes "loop_body schedule api time ids s = Inr s'"
  shows "foundIds s' = foundIds s"
  using assms
  by (auto simp: loop_body_def and_then_def Let_def split: sum.splits prod.splits
      dest: for_content_unchanged)

lemma while_loadMore_foundIds:
  assumes "while_loadMore n schedule api time ids s = (s', outcome)"
  shows "foundIds s' = foundIds s"
  using assms
proof (induction n arbitrary: s)
  case 0
  then show ?case by simp
next
  case (Suc n)
  show ?case
  proof (cases "loadMore s")
    case False
    with Suc.prems show ?thesis by simp
  next
    case True
    show ?thesis
    proof (cases "loop_body schedule api time ids s")
      case (Inl e)
      with True Suc.prems show ?thesis by simp
    next
      case (Inr s1)
      with True Suc.prems have run: "while_loadMore n schedule api time ids s1 = (s', outcome)"
        by simp
      from Suc.IH [OF run] loop_body_foundIds [OF Inr] show ?thesis by simp
    qed
  qed
qed


subsection \<open>The settings form\<close>

text \<open>
  The three fields of the form are stored before the test request is made. A rejected or
  failed test leaves them stored; only \<open>authorization\<close> and \<open>komgaAPI\<close> wait for status 200.
\<close>

lemma submitSourceMenuItemForm_rejected:
  assumes "schedule (test_request (createKomgaAPI (serverAddress form))
             (createAuthorizationString (serverUsername form) (serverPassword form)) True)
           = Inr response"
    and "status response \<noteq> 200"
  shows "\<exists>msg. submitSourceMenuItemForm st schedule form =
           (Inl (Error msg),
            st(''serverAddress'' := Stored (serverAddress form),
               ''serverUsername'' := Stored (serverUsername form),
               ''serverPassword'' := Stored (serverPassword form)))"
  using assms by (simp add: submitSourceMenuItemForm_def form_entries_def store_def Let_def)

lemma submitSourceMenuItemForm_unreachable:
  assumes "schedule (test_request (createKomgaAPI (serverAddress form))
             (createAuthorizationString (serverUsername form) (serverPassword form)) True)
           = Inl msg"
  shows "submitSourceMenuItemForm st schedule form =
           (Inl (Error (''Could not connect to server: '' @ msg)),
            st(''serverAddress'' := Stored (serverAddress form),
               ''serverUsername'' := Stored (serverUsername form),
               ''serverPassword'' := Stored (serverPassword form)))"
  using assms by (simp add: submitSourceMenuItemForm_def form_entries_def store_def Let_def)

lemma submitSourceMenuItemForm_accepted:
  assumes "schedule (test_request (createKomgaAPI (serverAddress form))
             (createAuthorizationString (serverUsername form) (serverPassword form)) True)
           = Inr response"
    and "status response = 200"
  shows "submitSourceMenuItemForm st schedule form =
           (Inr (),
            st(''serverAddress'' := Stored (serverAddress form),
               ''serverUsername'' := Stored (serverUsername form),
               ''serverPassword'' := Stored (serverPassword form),
               ''authorization'' :=
                 Stored (createAuthorizationString (serverUsername form) (serverPassword form)),
               ''komgaAPI'' := Stored (createKomgaAPI (serverAddress form))))"
  using assms by (simp add: submitSourceMenuItemForm_def form_entries_def Let_def store_def)

text \<open>
  C1. The stored settings are those of an old server; the form names a new one, and the
  test request is answered with status 401. The call raises "401 Unauthorized: Invalid
  credentials", and \<open>serverAddress\<close>, \<open>serverUsername\<close> and \<open>serverPassword\<close> hold the
  values of the form afterwards, where the claim expects all five keys unchanged;
  \<open>authorization\<close> and \<open>komgaAPI\<close> are unchanged.
\<close>

theorem submitSourceMenuItemForm_401_overwrites:
  "fst (submitSourceMenuItemForm old_settings unauthorized_server new_form)
     = Inl (Error ''401 Unauthorized: Invalid credentials'') \<and>
   map old_settings
       [''serverAddress'', ''serverUsername'', ''serverPassword'', ''authorization'', ''komgaAPI'']
     = [Stored ''http://old/'', Stored ''old'', Stored ''old'', Stored ''Basic b2xkOm9sZA=='',
        Stored ''http://old/api/v1''] \<and>
   map (snd (submitSourceMenuItemForm old_settings unauthorized_server new_form))
       [''serverAddress'', ''serverUsername'', ''serverPassword'', ''authorization'', ''komgaAPI'']
     = [Stored ''http://new'', Stored ''u'', Stored ''p'', Stored ''Basic b2xkOm9sZA=='',
        Stored ''http://old/api/v1'']"
  by (simp add: submitSourceMenuItemForm_def form_entries_def store_def Let_def
      unauthorized_server_def new_form_def old_settings_def)

text \<open>In version 1.1.2 the two derived values are written before the test as well.\<close>

lemma submitSourceMenuItemForm_v112_401_overwrites:
  "fst (submitSourceMenuItemForm_v112 old_settings unauthorized_server new_form)
     = Inl (Error ''401 Unauthorized: Invalid credentials'') \<and>
   map (snd (submitSourceMenuItemForm_v112 old_settings unauthorized_server new_form))
       [''serverAddress'', ''serverUsername'', ''serverPassword'', ''authorization'', ''komgaAPI'']
     = [Stored ''http://new'', Stored ''u'', Stored ''p'', Stored ''Basic dTpw'',
        Stored ''http://new/api/v1'']"
  by (simp add: submitSourceMenuItemForm_v112_def form_entries_def Let_def
      unauthorized_server_def new_form_def old_settings_def store_def
      createAuthorizationString_def binary_to_base64_def base64_alphabet_def
      createKomgaAPI_def slice_last_def)

end
